theory Spec2Isabelle
  imports Complex_Main
begin

section \<open>Numbers\<close>

text \<open>
  The editor computes with JavaScript numbers. They are modelled here as exact rationals:
  every quantity the modelled functions read is either an integer, a pointer coordinate or a
  zoom factor with two decimals, and the functions only add, subtract, divide, compare and
  round them. Where the source tests for a non-finite value (\<open>Number.isFinite\<close>, the
  \<open>|| default\<close> idiom applied to \<open>Number(...)\<close> or \<open>parseFloat(...)\<close>) the
  value is a \<open>rat option\<close> and \<open>None\<close> stands for the non-finite result. Binary
  rounding of doubles is outside the model.
\<close>

definition Math_round :: "rat \<Rightarrow> int" where
  \<comment> \<open>\<open>Math.round\<close>: nearest integer, a tie goes towards plus infinity.\<close>
  "Math_round x = \<lfloor>x + 1 / 2\<rfloor>"

definition toFixed2 :: "rat \<Rightarrow> rat" where
  \<comment> \<open>\<open>Number(x.toFixed(2))\<close>: nearest multiple of 1/100, the sign is split off first
      and a tie takes the larger magnitude.\<close>
  "toFixed2 x =
     (if x < 0 then - (of_int \<lfloor>(- x) * 100 + 1 / 2\<rfloor> / 100)
      else of_int \<lfloor>x * 100 + 1 / 2\<rfloor> / 100)"

definition clampNumber :: "rat \<Rightarrow> rat \<Rightarrow> rat \<Rightarrow> rat" where
  "clampNumber v mn mx = min mx (max mn v)"

definition or_default :: "rat option \<Rightarrow> rat \<Rightarrow> rat" where
  \<comment> \<open>\<open>Number(v) || d\<close>: \<open>NaN\<close> and \<open>0\<close> are falsy.\<close>
  "or_default v d = (case v of None \<Rightarrow> d | Some r \<Rightarrow> if r = 0 then d else r)"

definition ZOOM_min :: rat where "ZOOM_min = 1 / 2"
definition ZOOM_max :: rat where "ZOOM_max = 5"
definition ZOOM_step :: rat where "ZOOM_step = 1 / 10"

section \<open>Data model of the editor (\<open>static/js/src/pages.js\<close>)\<close>

record position =
  left :: int
  top' :: int
  width :: int
  height :: int

record block =
  id' :: string
  type' :: string
  content :: string
  backgroundColor :: string
  textColor :: string
  borderRadius :: rat
  imageUrl :: "string option"
  position :: position

text \<open>
  A block as it arrives in a JSON response. A field that may be missing is an option; the
  position components are the results of \<open>Number(...)\<close>, \<open>None\<close> when that is \<open>NaN\<close>
  (also when the whole \<open>position\<close> object is missing).
\<close>

record raw_block =
  raw_id :: "string option"
  raw_type :: "string option"
  raw_content :: "string option"
  raw_backgroundColor :: "string option"
  raw_textColor :: "string option"
  raw_borderRadius :: "rat option"
  raw_imageUrl :: "string option"
  raw_left :: "rat option"
  raw_top :: "rat option"
  raw_width :: "rat option"
  raw_height :: "rat option"

record dims =
  dims_width :: rat
  dims_height :: rat

record layout =
  layout_format :: "string option"
  layout_orientation :: "string option"
  layout_dimensions :: "dims option"
  layout_blocks :: "raw_block list option"

text \<open>
  What is kept of a block's DOM element: the four style lengths written by
  \<open>applyBlockPosition\<close> and the \<open>selected\<close> class. Content and colours of the element
  are output only and are left out.
\<close>

record element =
  style :: position
  selected :: bool

datatype mode = Drag | Resize

record active =
  blockId :: string
  pointerId :: int
  mode :: mode
  startX :: rat
  startY :: rat
  originLeft :: int
  originTop :: int
  originWidth :: int
  originHeight :: int

record pointer_event =
  ev_pointerId :: int
  clientX :: rat
  clientY :: rat
  pointerType_mouse :: bool
  button :: int
  detail :: int
  target_resize_handle :: bool

datatype request =
    GetLayout string
  | AddBlock string string position
  | UpdatePosition string string position
  | DeleteBlock string string

text \<open>
  The keys of \<open>state.blocks\<close>, \<open>state.blockElements\<close> and the entries of
  \<open>state.blockOrder\<close> are the \<open>id\<close> values of the JSON blocks, so a key may be
  \<open>undefined\<close> (\<open>None\<close>); the \<open>id\<close> field of a stored block is always a string.
  \<open>requests\<close> and \<open>toasts\<close> record the calls to \<open>fetch\<close> and \<open>showToast\<close> in
  the order they are made.
\<close>

record state =
  project :: string
  layout :: "layout option"
  blocks :: "string option \<rightharpoonup> block"
  blockOrder :: "string option list"
  blockElements :: "string option \<rightharpoonup> element"
  selectedId :: "string option"
  activePointer :: "active option"
  format :: string
  orientation :: string
  zoom :: rat
  requests :: "request list"
  toasts :: "(string \<times> bool) list"

definition initial_state :: state where
  "initial_state =
     \<lparr>project = ''default'', layout = None, blocks = Map.empty, blockOrder = [],
      blockElements = Map.empty, selectedId = None, activePointer = None,
      format = ''A4'', orientation = ''portrait'', zoom = 1, requests = [], toasts = []\<rparr>"

datatype 'a fetched = NetworkError | HttpError | HttpOk 'a

section \<open>Blocks, selection and rendering\<close>

definition truthy :: "string option \<Rightarrow> bool" where
  "truthy v = (case v of None \<Rightarrow> False | Some x \<Rightarrow> x \<noteq> [])"

definition or_text :: "string option \<Rightarrow> string \<Rightarrow> string" where
  \<comment> \<open>\<open>v || d\<close> on a string that may be missing: the empty string is falsy too.\<close>
  "or_text v d = (case v of None \<Rightarrow> d | Some x \<Rightarrow> if x = [] then d else x)"

definition showToast :: "string \<Rightarrow> bool \<Rightarrow> state \<Rightarrow> state" where
  "showToast message isError s = s\<lparr>toasts := toasts s @ [(message, isError)]\<rparr>"

definition normalizeBlock :: "string \<Rightarrow> raw_block \<Rightarrow> block" where
  \<comment> \<open>The first argument is the value \<open>generateClientId()\<close> returns when it is called.\<close>
  "normalizeBlock gen b =
     \<lparr>id' = or_text (raw_id b) gen,
      type' = or_text (raw_type b) ''text'',
      content = (case raw_content b of None \<Rightarrow> [] | Some c \<Rightarrow> c),
      backgroundColor = (case raw_backgroundColor b of None \<Rightarrow> ''#ffffff'' | Some c \<Rightarrow> c),
      textColor = (case raw_textColor b of None \<Rightarrow> ''#1c2333'' | Some c \<Rightarrow> c),
      borderRadius = (case raw_borderRadius b of None \<Rightarrow> 12 | Some r \<Rightarrow> r),
      imageUrl = (if truthy (raw_imageUrl b) then raw_imageUrl b else None),
      position =
        \<lparr>left = Math_round (or_default (raw_left b) 0),
         top' = Math_round (or_default (raw_top b) 0),
         width = max 40 (Math_round (or_default (raw_width b) 240)),
         height = max 40 (Math_round (or_default (raw_height b) 140))\<rparr>\<rparr>"

definition createBlockElement :: "block \<Rightarrow> element" where
  "createBlockElement b = \<lparr>style = position b, selected = False\<rparr>"

definition set_selected_class :: "string option \<Rightarrow> bool \<Rightarrow> state \<Rightarrow> state" where
  \<comment> \<open>\<open>classList.add/remove('selected')\<close> on the element stored under a key, if any.\<close>
  "set_selected_class k v s =
     (case blockElements s k of
        None \<Rightarrow> s
      | Some el \<Rightarrow> s\<lparr>blockElements := (blockElements s)(k \<mapsto> el\<lparr>selected := v\<rparr>)\<rparr>)"

definition applyBlockPosition :: "block \<Rightarrow> state \<Rightarrow> state" where
  "applyBlockPosition b s =
     (case blockElements s (Some (id' b)) of
        None \<Rightarrow> s
      | Some el \<Rightarrow>
          s\<lparr>blockElements := (blockElements s)(Some (id' b) \<mapsto> el\<lparr>style := position b\<rparr>)\<rparr>)"

definition selectBlock :: "string \<Rightarrow> state \<Rightarrow> state" where
  "selectBlock bid s =
     (if selectedId s = Some bid then s
      else
        let s1 = (if truthy (selectedId s) then set_selected_class (selectedId s) False s else s)
        in (case (blockElements s1 (Some bid), blocks s1 (Some bid)) of
              (Some el, Some b) \<Rightarrow>
                (set_selected_class (Some bid) True s1)\<lparr>selectedId := Some bid\<rparr>
            | _ \<Rightarrow> s1\<lparr>selectedId := None\<rparr>))"

definition deselectBlock :: "state \<Rightarrow> state" where
  "deselectBlock s =
     (let s1 = (if truthy (selectedId s) then set_selected_class (selectedId s) False s else s)
      in s1\<lparr>selectedId := None\<rparr>)"

definition getSelectedBlock :: "state \<Rightarrow> block option" where
  "getSelectedBlock s = (if truthy (selectedId s) then blocks s (selectedId s) else None)"

section \<open>Pointer interaction and the inspector's numeric inputs\<close>

definition persistBlock :: "string \<Rightarrow> position \<Rightarrow> state \<Rightarrow> state" where
  \<comment> \<open>One \<open>update\<close> request per call, sent at once; nothing is delayed or merged.\<close>
  "persistBlock bid p s = s\<lparr>requests := requests s @ [UpdatePosition (project s) bid p]\<rparr>"

definition startPointerInteraction :: "pointer_event \<Rightarrow> string \<Rightarrow> mode \<Rightarrow> state \<Rightarrow> state" where
  "startPointerInteraction ev bid m s =
     (if activePointer s \<noteq> None then s
      else
        (case (blocks s (Some bid), blockElements s (Some bid)) of
           (Some b, Some el) \<Rightarrow>
             s\<lparr>activePointer := Some
                 \<lparr>blockId = bid, pointerId = ev_pointerId ev, mode = m,
                  startX = clientX ev, startY = clientY ev,
                  originLeft = left (position b), originTop = top' (position b),
                  originWidth = width (position b), originHeight = height (position b)\<rparr>\<rparr>
         | _ \<Rightarrow> s))"

definition block_pointerdown :: "pointer_event \<Rightarrow> string \<Rightarrow> state \<Rightarrow> state" where
  \<comment> \<open>The \<open>pointerdown\<close> listener of the element of the block with the given \<open>id\<close>.\<close>
  "block_pointerdown ev bid s =
     (if pointerType_mouse ev \<and> button ev \<noteq> 0 then s
      else if detail ev > 1 then s
      else
        let s1 = selectBlock bid s
        in if target_resize_handle ev then startPointerInteraction ev bid Resize s1
           else startPointerInteraction ev bid Drag s1)"

definition handlePointerMove :: "pointer_event \<Rightarrow> state \<Rightarrow> state" where
  "handlePointerMove ev s =
     (case activePointer s of
        None \<Rightarrow> s
      | Some a \<Rightarrow>
          if ev_pointerId ev \<noteq> pointerId a then s
          else
            (case blocks s (Some (blockId a)) of
               None \<Rightarrow> s
             | Some b \<Rightarrow>
                 let dx = clientX ev - startX a;
                     dy = clientY ev - startY a;
                     scale = (if zoom s = 0 then 1 else zoom s);
                     p = position b;
                     p' = (case mode a of
                             Drag \<Rightarrow>
                               p\<lparr>left := Math_round (of_int (originLeft a) + dx / scale),
                                 top' := Math_round (of_int (originTop a) + dy / scale)\<rparr>
                           | Resize \<Rightarrow>
                               p\<lparr>width := max 40 (Math_round (of_int (originWidth a) + dx / scale)),
                                 height := max 40 (Math_round (of_int (originHeight a) + dy / scale))\<rparr>);
                     b' = b\<lparr>position := p'\<rparr>
                 in applyBlockPosition b' (s\<lparr>blocks := (blocks s)(Some (blockId a) \<mapsto> b')\<rparr>)))"

definition endPointerInteraction :: "pointer_event \<Rightarrow> state \<Rightarrow> state" where
  "endPointerInteraction ev s =
     (case activePointer s of
        None \<Rightarrow> s
      | Some a \<Rightarrow>
          if ev_pointerId ev \<noteq> pointerId a then s
          else
            let s1 = (case blocks s (Some (blockId a)) of
                        None \<Rightarrow> s
                      | Some b \<Rightarrow> persistBlock (id' b) (position b) s)
            in s1\<lparr>activePointer := None\<rparr>)"

datatype pos_field = Left | Top | Width | Height

definition set_field :: "pos_field \<Rightarrow> int \<Rightarrow> position \<Rightarrow> position" where
  "set_field f v p =
     (case f of Left \<Rightarrow> p\<lparr>left := v\<rparr> | Top \<Rightarrow> p\<lparr>top' := v\<rparr>
              | Width \<Rightarrow> p\<lparr>width := v\<rparr> | Height \<Rightarrow> p\<lparr>height := v\<rparr>)"

definition numeric_change :: "pos_field \<Rightarrow> rat option \<Rightarrow> rat option \<Rightarrow> state \<Rightarrow> state" where
  \<comment> \<open>The \<open>change\<close> listener installed by \<open>bindNumericInput(input, field, min)\<close>; the second
      argument is \<open>min\<close> (\<open>None\<close> for \<open>null\<close>), the third is \<open>Number(input.value)\<close>,
      \<open>None\<close> when it is not finite.\<close>
  "numeric_change f mn v s =
     (case getSelectedBlock s of
        None \<Rightarrow> s
      | Some b \<Rightarrow>
          let value0 = (case v of None \<Rightarrow> 0 | Some r \<Rightarrow> r);
              value1 = (case mn of None \<Rightarrow> value0
                        | Some m \<Rightarrow> if value0 < m then m else value0);
              b' = b\<lparr>position := set_field f (Math_round value1) (position b)\<rparr>;
              s1 = s\<lparr>blocks := (blocks s)(selectedId s \<mapsto> b')\<rparr>
          in persistBlock (id' b') (position b') (applyBlockPosition b' s1))"

definition field_min :: "pos_field \<Rightarrow> rat option" where
  \<comment> \<open>The four bindings made in \<open>bindUIEvents\<close>: width and height have minimum 40.\<close>
  "field_min f = (case f of Left \<Rightarrow> None | Top \<Rightarrow> None | Width \<Rightarrow> Some 40 | Height \<Rightarrow> Some 40)"

definition inspector_change :: "pos_field \<Rightarrow> rat option \<Rightarrow> state \<Rightarrow> state" where
  "inspector_change f v s = numeric_change f (field_min f) v s"

section \<open>Loading, creating and deleting\<close>

text \<open>
  The asynchronous functions are modelled as one step that takes the outcome of their
  \<open>fetch\<close> as an argument: \<open>NetworkError\<close> when the promise rejects, \<open>HttpError\<close> when
  \<open>response.ok\<close> is false (and, where the body is parsed, when parsing throws), \<open>HttpOk\<close>
  with the parsed body otherwise.
\<close>

definition CANVAS_PRESETS :: "string \<Rightarrow> dims option" where
  "CANVAS_PRESETS f =
     (if f = ''A5'' then Some \<lparr>dims_width = 559, dims_height = 794\<rparr>
      else if f = ''A4'' then Some \<lparr>dims_width = 794, dims_height = 1123\<rparr>
      else if f = ''A3'' then Some \<lparr>dims_width = 1123, dims_height = 1587\<rparr>
      else if f = ''Letter'' then Some \<lparr>dims_width = 816, dims_height = 1056\<rparr>
      else None)"

definition applyCanvasMeta :: "layout \<Rightarrow> state \<Rightarrow> state" where
  \<comment> \<open>The fit it schedules for the next animation frame is the separate step
      \<open>fitCanvasToPanel\<close>.\<close>
  "applyCanvasMeta l s =
     (let fmt = (case layout_format l of
                   None \<Rightarrow> ''A4''
                 | Some f \<Rightarrow> if f \<noteq> [] \<and> CANVAS_PRESETS f \<noteq> None then f else ''A4'');
          ori = (if layout_orientation l = Some ''landscape'' then ''landscape'' else ''portrait'');
          basePreset = (case CANVAS_PRESETS fmt of
                          None \<Rightarrow> \<lparr>dims_width = 794, dims_height = 1123\<rparr> | Some d \<Rightarrow> d);
          d0 = (case layout_dimensions l of
                  None \<Rightarrow> basePreset
                | Some d \<Rightarrow> if dims_width d \<noteq> 0 \<and> dims_height d \<noteq> 0 then d else basePreset);
          d1 = (if ori = ''landscape'' \<and> dims_height d0 > dims_width d0
                then \<lparr>dims_width = dims_height d0, dims_height = dims_width d0\<rparr>
                else if ori = ''portrait'' \<and> dims_width d0 > dims_height d0
                then \<lparr>dims_width = dims_height d0, dims_height = dims_width d0\<rparr>
                else d0)
      in s\<lparr>format := fmt, orientation := ori,
           layout := Some (l\<lparr>layout_format := Some fmt, layout_orientation := Some ori,
                             layout_dimensions := Some d1\<rparr>)\<rparr>)"

definition renderCanvas :: "state \<Rightarrow> state" where
  "renderCanvas s =
     fold (\<lambda>k st. case blocks st k of
                     None \<Rightarrow> st
                   | Some b \<Rightarrow>
                       if id' b = [] then st
                       else st\<lparr>blockElements := (blockElements st)(k \<mapsto> createBlockElement b)\<rparr>)
          (blockOrder s) (s\<lparr>blockElements := Map.empty\<rparr>)"

definition store_block :: "(nat \<Rightarrow> string) \<Rightarrow> nat \<times> raw_block \<Rightarrow> state \<Rightarrow> state" where
  \<comment> \<open>The body of the \<open>forEach\<close> of \<open>loadLayout\<close>, for the block at a given index.\<close>
  "store_block gen ib st =
     st\<lparr>blocks := (blocks st)(raw_id (snd ib) \<mapsto> normalizeBlock (gen (fst ib)) (snd ib)),
        blockOrder := blockOrder st @ [raw_id (snd ib)]\<rparr>"

definition loadLayout :: "string \<Rightarrow> layout fetched \<Rightarrow> (nat \<Rightarrow> string) \<Rightarrow> state \<Rightarrow> state" where
  \<comment> \<open>The third argument gives the client id generated for the block at each index, used
      only where the block has no id of its own.\<close>
  "loadLayout p resp gen s =
     (let s0 = s\<lparr>requests := requests s @ [GetLayout p]\<rparr>
      in case resp of
           HttpOk l \<Rightarrow>
             let raws = (case layout_blocks l of None \<Rightarrow> [] | Some bs \<Rightarrow> bs);
                 s1 = s0\<lparr>project := p, layout := Some l, blocks := Map.empty,
                         blockElements := Map.empty, blockOrder := []\<rparr>;
                 s2 = fold (store_block gen) (enumerate 0 raws) s1
             in applyCanvasMeta l (deselectBlock (renderCanvas s2))
         | _ \<Rightarrow> showToast ''Unable to load layout'' True s0)"

definition createBlock ::
  "string \<Rightarrow> int \<Rightarrow> int \<Rightarrow> raw_block option fetched \<Rightarrow> string \<Rightarrow> state \<Rightarrow> state" where
  \<comment> \<open>The two integers are the values of \<open>Math.floor(Math.random() * 60)\<close>; the body of the
      response is \<open>data.block\<close>, \<open>None\<close> when the field is missing (reading its
      \<open>position\<close> then throws into the \<open>catch\<close>).\<close>
  "createBlock ty rl rt resp gen s =
     (let basePosition = \<lparr>left = 120 + rl, top' = 120 + rt,
                           width = (if ty = ''image'' then 260 else 260),
                           height = (if ty = ''image'' then 180 else 140)\<rparr>;
          s0 = s\<lparr>requests := requests s @ [AddBlock (project s) ty basePosition]\<rparr>
      in case resp of
           HttpOk (Some rb) \<Rightarrow>
             let b = normalizeBlock gen rb;
                 s1 = s0\<lparr>blocks := (blocks s0)(Some (id' b) \<mapsto> b),
                         blockOrder := blockOrder s0 @ [Some (id' b)]\<rparr>;
                 s2 = s1\<lparr>blockElements := (blockElements s1)(Some (id' b) \<mapsto> createBlockElement b)\<rparr>;
                 s3 = selectBlock (id' b) s2
             in showToast ((if ty = ''image'' then ''Image'' else ''Text'') @ '' block added'') False s3
         | _ \<Rightarrow> showToast ''Unable to add block'' True s0)"

definition deleteBlock :: "string \<Rightarrow> unit fetched \<Rightarrow> state \<Rightarrow> state" where
  "deleteBlock bid resp s =
     (let s0 = s\<lparr>requests := requests s @ [DeleteBlock (project s) bid]\<rparr>
      in case resp of
           HttpOk u \<Rightarrow>
             let s1 = s0\<lparr>blockElements := (blockElements s0)(Some bid := None),
                         blocks := (blocks s0)(Some bid := None),
                         blockOrder := filter (\<lambda>k. k \<noteq> Some bid) (blockOrder s0)\<rparr>
             in showToast ''Block deleted'' False (deselectBlock s1)
         | _ \<Rightarrow> showToast ''Unable to delete block'' True s0)"

definition delete_click :: "unit fetched \<Rightarrow> state \<Rightarrow> state" where
  \<comment> \<open>The \<open>click\<close> listener of the inspector's delete button.\<close>
  "delete_click resp s =
     (case getSelectedBlock s of None \<Rightarrow> s | Some b \<Rightarrow> deleteBlock (id' b) resp s)"

section \<open>Zoom\<close>

record panel =
  clientWidth :: rat
  paddingLeft :: "rat option"
  paddingRight :: "rat option"

record wheel_event =
  metaKey :: bool
  ctrlKey :: bool
  deltaY :: rat

definition setCanvasZoom :: "rat option \<Rightarrow> state \<Rightarrow> state" where
  \<comment> \<open>The argument is \<open>None\<close> when the value is not finite. The CSS variable, the slider,
      the label and the scroll position it also writes are output only.\<close>
  "setCanvasZoom v s =
     (let z = clampNumber (case v of None \<Rightarrow> zoom s | Some x \<Rightarrow> x) ZOOM_min ZOOM_max
      in s\<lparr>zoom := toFixed2 z\<rparr>)"

definition fitCanvasToPanel :: "panel option \<Rightarrow> state \<Rightarrow> state" where
  \<comment> \<open>The argument is \<open>els.canvasPanel || els.canvasWrapper\<close> with its computed style.\<close>
  "fitCanvasToPanel container s =
     (case (case layout s of None \<Rightarrow> None | Some l \<Rightarrow> layout_dimensions l) of
        None \<Rightarrow> s
      | Some d \<Rightarrow>
          if dims_width d = 0 \<or> dims_height d = 0 then s
          else
            (case container of
               None \<Rightarrow> s
             | Some c \<Rightarrow>
                 let paddingX = or_default (paddingLeft c) 0 + or_default (paddingRight c) 0;
                     availableWidth = max (clientWidth c - paddingX) 120
                 in if availableWidth \<le> 0 then s
                    else
                      let desiredZoom = availableWidth / dims_width d
                      in if desiredZoom \<le> 0 then s
                         else
                           let nextZoom = clampNumber desiredZoom ZOOM_min ZOOM_max
                           in if \<bar>nextZoom - zoom s\<bar> < 1 / 100 then s
                              else setCanvasZoom (Some nextZoom) s))"

definition adjustCanvasZoom :: "rat \<Rightarrow> state \<Rightarrow> state" where
  "adjustCanvasZoom delta s =
     (let raw = zoom s + delta;
          snapped = of_int (Math_round (raw / ZOOM_step)) * ZOOM_step
      in setCanvasZoom (Some (toFixed2 snapped)) s)"

definition handleZoomWheel :: "wheel_event \<Rightarrow> state \<Rightarrow> state" where
  "handleZoomWheel ev s =
     (if \<not> metaKey ev \<and> \<not> ctrlKey ev then s
      else if deltaY ev = 0 then s
      else adjustCanvasZoom ((if deltaY ev < 0 then 1 else - 1) * ZOOM_step) s)"

section \<open>The editor as a machine driven by events\<close>

datatype event =
    LoadLayout string "layout fetched" "nat \<Rightarrow> string"
  | CreateBlock string int int "raw_block option fetched" string
  | DeleteClick "unit fetched"
  | BlockClick string
  | CanvasPointerDown
  | PointerDown pointer_event string
  | PointerMove pointer_event
  | PointerUp pointer_event
  | InspectorChange pos_field "rat option"
  | ZoomInput "rat option"
  | ZoomIn
  | ZoomOut
  | Wheel wheel_event
  | Fit "panel option"

fun handle :: "state \<Rightarrow> event \<Rightarrow> state" where
  "handle s (LoadLayout p resp gen) = loadLayout p resp gen s"
| "handle s (CreateBlock ty rl rt resp gen) = createBlock ty rl rt resp gen s"
| "handle s (DeleteClick resp) = delete_click resp s"
| "handle s (BlockClick bid) = selectBlock bid s"
| "handle s CanvasPointerDown = deselectBlock s"
| "handle s (PointerDown ev bid) = block_pointerdown ev bid s"
| "handle s (PointerMove ev) = handlePointerMove ev s"
| "handle s (PointerUp ev) = endPointerInteraction ev s"
| "handle s (InspectorChange f v) = inspector_change f v s"
| "handle s (ZoomInput v) = setCanvasZoom v s"
| "handle s ZoomIn = adjustCanvasZoom ZOOM_step s"
| "handle s ZoomOut = adjustCanvasZoom (- ZOOM_step) s"
| "handle s (Wheel ev) = handleZoomWheel ev s"
| "handle s (Fit c) = fitCanvasToPanel c s"

definition run :: "event list \<Rightarrow> state \<Rightarrow> state" where
  "run evs s = foldl handle s evs"

section \<open>The legacy client: loading (\<open>legacy/static/js/app.js\<close>)\<close>

text \<open>
  The legacy client keeps its blocks in the DOM only. A block of a layout and the element
  \<open>applyLayout\<close> builds from it carry the same data; the grid and layer settings of a
  layout are not read by \<open>applyLayout\<close> and are left out.
\<close>

record legacy_block =
  legacy_id :: string
  legacy_type :: string
  legacy_content :: string
  legacy_left :: rat
  legacy_top :: rat
  legacy_width :: rat
  legacy_height :: rat

record legacy_element =
  el_className :: string
  el_id :: string
  el_innerHtml :: string
  el_style :: "rat \<times> rat \<times> rat \<times> rat"
  el_resize_handle :: bool

record legacy_layout =
  legacy_blocks :: "legacy_block list option"
  legacy_format :: string
  legacy_orientation :: string
  legacy_dimensions :: dims

definition getDefaultLayout :: legacy_layout where
  "getDefaultLayout =
     \<lparr>legacy_blocks = Some [], legacy_format = ''A4'', legacy_orientation = ''portrait'',
      legacy_dimensions = \<lparr>dims_width = 794, dims_height = 1123\<rparr>\<rparr>"

definition applyLayout :: "legacy_layout \<Rightarrow> legacy_element list \<Rightarrow> legacy_element list" where
  \<comment> \<open>The canvas is the list of its child elements; it is emptied first.\<close>
  "applyLayout l canvas =
     (case legacy_blocks l of
        None \<Rightarrow> []
      | Some bs \<Rightarrow>
          map (\<lambda>b. \<lparr>el_className = ''block '' @ legacy_type b, el_id = legacy_id b,
                     el_innerHtml = legacy_content b,
                     el_style = (legacy_left b, legacy_top b, legacy_width b, legacy_height b),
                     el_resize_handle = (legacy_type b = ''text'')\<rparr>) bs)"

definition legacy_loadLayout ::
  "legacy_layout fetched \<Rightarrow> legacy_element list \<Rightarrow> legacy_element list" where
  "legacy_loadLayout resp canvas =
     (case resp of
        HttpOk data \<Rightarrow> applyLayout data canvas
      | _ \<Rightarrow> applyLayout getDefaultLayout canvas)"

section \<open>The legacy client: debounced saving (\<open>legacy/src/blocks.js\<close>)\<close>










section \<open>The server's block operations (\<open>block_api\<close>)\<close>












section \<open>Invariants and example inputs\<close>

definition min_size :: "state \<Rightarrow> bool" where
  "min_size s =
     (\<forall>k b. blocks s k = Some b \<longrightarrow> 40 \<le> width (position b) \<and> 40 \<le> height (position b))"



text \<open>
  The inputs of the worked examples: the creation of a text block that the server answers
  with the block it was sent, at position (125, 127, 260, 140) and with the id \<open>b1\<close>,
  pointer events of a mouse with the primary button, a layout of format A4 and a panel with
  24 pixels of padding on each side.
\<close>

definition demo_raw :: raw_block where
  "demo_raw =
     \<lparr>raw_id = Some ''b1'', raw_type = Some ''text'', raw_content = Some ''Editable text'',
      raw_backgroundColor = Some ''#ffffff'', raw_textColor = Some ''#1c2333'',
      raw_borderRadius = Some 12, raw_imageUrl = None,
      raw_left = Some 125, raw_top = Some 127, raw_width = Some 260, raw_height = Some 140\<rparr>"

definition demo_block :: "int \<Rightarrow> int \<Rightarrow> int \<Rightarrow> int \<Rightarrow> block" where
  "demo_block l t w h =
     \<lparr>id' = ''b1'', type' = ''text'', content = ''Editable text'',
      backgroundColor = ''#ffffff'', textColor = ''#1c2333'', borderRadius = 12,
      imageUrl = None, position = \<lparr>left = l, top' = t, width = w, height = h\<rparr>\<rparr>"

definition demo_pointer :: "int \<Rightarrow> rat \<Rightarrow> rat \<Rightarrow> bool \<Rightarrow> pointer_event" where
  "demo_pointer i x y h =
     \<lparr>ev_pointerId = i, clientX = x, clientY = y, pointerType_mouse = True, button = 0,
      detail = 1, target_resize_handle = h\<rparr>"

definition demo_create :: event where
  "demo_create = CreateBlock ''text'' 5 7 (HttpOk (Some demo_raw)) ''block-0''"

definition demo_gen :: "nat \<Rightarrow> string" where
  "demo_gen i = ''block-0''"

definition demo_layout :: layout where
  "demo_layout =
     \<lparr>layout_format = Some ''A4'', layout_orientation = Some ''portrait'',
      layout_dimensions = Some \<lparr>dims_width = 794, dims_height = 1123\<rparr>,
      layout_blocks = Some [demo_raw]\<rparr>"

definition demo_active :: "mode \<Rightarrow> active" where
  "demo_active m =
     \<lparr>blockId = ''b1'', pointerId = 1, mode = m, startX = 300, startY = 300,
      originLeft = 125, originTop = 127, originWidth = 260, originHeight = 140\<rparr>"




section \<open>Evaluation of the examples\<close>

lemma floor_rat_numeral [simp]:
  "\<lfloor>numeral a / numeral b :: rat\<rfloor> = numeral a div numeral b"
  by (metis floor_divide_of_int_eq of_int_numeral)

lemma floor_rat_minus_numeral [simp]:
  "\<lfloor>- (numeral a / numeral b) :: rat\<rfloor> = - numeral a div numeral b"
  by (metis divide_minus_left floor_divide_of_int_eq of_int_neg_numeral of_int_numeral)

lemmas demo_defs = demo_raw_def demo_block_def demo_pointer_def demo_create_def demo_gen_def
  demo_layout_def demo_active_def

lemmas step_defs = run_def initial_state_def createBlock_def normalizeBlock_def truthy_def
  or_text_def
  or_default_def Math_round_def selectBlock_def set_selected_class_def createBlockElement_def
  showToast_def block_pointerdown_def startPointerInteraction_def handlePointerMove_def
  applyBlockPosition_def endPointerInteraction_def persistBlock_def inspector_change_def
  numeric_change_def field_min_def set_field_def getSelectedBlock_def Let_def


section \<open>What each function does to the block map and to the selection\<close>

lemma blocks_showToast [simp]: "blocks (showToast m e s) = blocks s"
  by (simp add: showToast_def)

lemma blocks_set_selected_class [simp]: "blocks (set_selected_class k v s) = blocks s"
  by (simp add: set_selected_class_def split: option.splits)

lemma blocks_applyBlockPosition [simp]: "blocks (applyBlockPosition b s) = blocks s"
  by (simp add: applyBlockPosition_def split: option.splits)

lemma blocks_selectBlock [simp]: "blocks (selectBlock bid s) = blocks s"
  by (simp add: selectBlock_def Let_def split: option.splits)

lemma blocks_deselectBlock [simp]: "blocks (deselectBlock s) = blocks s"
  by (simp add: deselectBlock_def Let_def)

lemma blocks_persistBlock [simp]: "blocks (persistBlock bid p s) = blocks s"
  by (simp add: persistBlock_def)

lemma blocks_startPointerInteraction [simp]:
  "blocks (startPointerInteraction ev bid m s) = blocks s"
  by (simp add: startPointerInteraction_def split: option.splits)

lemma blocks_block_pointerdown [simp]: "blocks (block_pointerdown ev bid s) = blocks s"
  by (simp add: block_pointerdown_def Let_def)

lemma blocks_endPointerInteraction [simp]: "blocks (endPointerInteraction ev s) = blocks s"
  by (simp add: endPointerInteraction_def Let_def split: option.splits)

lemma blocks_setCanvasZoom [simp]: "blocks (setCanvasZoom v s) = blocks s"
  by (simp add: setCanvasZoom_def Let_def)

lemma blocks_adjustCanvasZoom [simp]: "blocks (adjustCanvasZoom d s) = blocks s"
  by (simp add: adjustCanvasZoom_def Let_def)

lemma blocks_handleZoomWheel [simp]: "blocks (handleZoomWheel ev s) = blocks s"
  by (simp add: handleZoomWheel_def)

lemma blocks_fitCanvasToPanel [simp]: "blocks (fitCanvasToPanel c s) = blocks s"
  by (simp add: fitCanvasToPanel_def Let_def split: option.splits)

lemma blocks_applyCanvasMeta [simp]: "blocks (applyCanvasMeta l s) = blocks s"
  by (simp add: applyCanvasMeta_def Let_def)

lemma blocks_fold_render:
  "blocks (fold (\<lambda>k st. case blocks st k of
                     None \<Rightarrow> st
                   | Some b \<Rightarrow>
                       if id' b = [] then st
                       else st\<lparr>blockElements := (blockElements st)(k \<mapsto> createBlockElement b)\<rparr>)
             ks s) = blocks s"
  by (induction ks arbitrary: s) (auto split: option.splits)

lemma blocks_renderCanvas [simp]: "blocks (renderCanvas s) = blocks s"
  by (simp add: renderCanvas_def blocks_fold_render)

lemma blockElements_setCanvasZoom [simp]: "blockElements (setCanvasZoom v s) = blockElements s"
  by (simp add: setCanvasZoom_def Let_def)

lemma blockElements_adjustCanvasZoom [simp]:
  "blockElements (adjustCanvasZoom d s) = blockElements s"
  by (simp add: adjustCanvasZoom_def Let_def)

lemma blockElements_handleZoomWheel [simp]:
  "blockElements (handleZoomWheel ev s) = blockElements s"
  by (simp add: handleZoomWheel_def)

lemma blockElements_fitCanvasToPanel [simp]:
  "blockElements (fitCanvasToPanel c s) = blockElements s"
  by (simp add: fitCanvasToPanel_def Let_def split: option.splits)

lemma activePointer_set_selected_class [simp]:
  "activePointer (set_selected_class k v s) = activePointer s"
  by (simp add: set_selected_class_def split: option.splits)

lemma activePointer_selectBlock [simp]: "activePointer (selectBlock bid s) = activePointer s"
  by (simp add: selectBlock_def Let_def split: option.splits)

lemma selectedId_showToast [simp]: "selectedId (showToast m e s) = selectedId s"
  by (simp add: showToast_def)

lemma selectedId_set_selected_class [simp]:
  "selectedId (set_selected_class k v s) = selectedId s"
  by (simp add: set_selected_class_def split: option.splits)

lemma selectedId_applyBlockPosition [simp]: "selectedId (applyBlockPosition b s) = selectedId s"
  by (simp add: applyBlockPosition_def split: option.splits)

lemma selectedId_persistBlock [simp]: "selectedId (persistBlock bid p s) = selectedId s"
  by (simp add: persistBlock_def)

lemma selectedId_deselectBlock [simp]: "selectedId (deselectBlock s) = None"
  by (simp add: deselectBlock_def Let_def)

lemma selectedId_applyCanvasMeta [simp]: "selectedId (applyCanvasMeta l s) = selectedId s"
  by (simp add: applyCanvasMeta_def Let_def)

lemma selectedId_startPointerInteraction [simp]:
  "selectedId (startPointerInteraction ev bid m s) = selectedId s"
  by (simp add: startPointerInteraction_def split: option.splits)

lemma selectedId_endPointerInteraction [simp]:
  "selectedId (endPointerInteraction ev s) = selectedId s"
  by (simp add: endPointerInteraction_def Let_def split: option.splits)

lemma selectedId_setCanvasZoom [simp]: "selectedId (setCanvasZoom v s) = selectedId s"
  by (simp add: setCanvasZoom_def Let_def)

lemma selectedId_adjustCanvasZoom [simp]: "selectedId (adjustCanvasZoom d s) = selectedId s"
  by (simp add: adjustCanvasZoom_def Let_def)

lemma selectedId_handleZoomWheel [simp]: "selectedId (handleZoomWheel ev s) = selectedId s"
  by (simp add: handleZoomWheel_def)

lemma selectedId_fitCanvasToPanel [simp]: "selectedId (fitCanvasToPanel c s) = selectedId s"
  by (simp add: fitCanvasToPanel_def Let_def split: option.splits)

section \<open>Minimum size of a block\<close>

lemma Math_round_ge: "of_int n \<le> x \<Longrightarrow> n \<le> Math_round x"
  by (simp add: Math_round_def le_floor_iff)


lemma normalizeBlock_min:
  "40 \<le> width (position (normalizeBlock g rb)) \<and> 40 \<le> height (position (normalizeBlock g rb))"
  by (simp add: normalizeBlock_def)

lemma min_size_initial: "min_size initial_state"
  by (simp add: min_size_def initial_state_def)

lemma min_size_blocks_eq: "blocks t = blocks s \<Longrightarrow> min_size s \<Longrightarrow> min_size t"
  by (simp add: min_size_def)

lemma min_size_fold_store:
  "min_size s \<Longrightarrow> min_size (fold (store_block gen) ibs s)"
proof (induction ibs arbitrary: s)
  case Nil
  then show ?case by simp
next
  case (Cons ib ibs)
  have "min_size (store_block gen ib s)"
    using Cons.prems normalizeBlock_min by (auto simp: min_size_def store_block_def)
  then show ?case using Cons.IH by simp
qed

lemma min_size_loadLayout: "min_size s \<Longrightarrow> min_size (loadLayout p resp gen s)"
proof (cases resp)
  case (HttpOk l)
  have "min_size (s\<lparr>requests := requests s @ [GetLayout p], project := p, layout := Some l,
          blocks := Map.empty, blockElements := Map.empty, blockOrder := []\<rparr>)"
    by (simp add: min_size_def)
  then have "min_size (fold (store_block gen)
       (enumerate 0 (case layout_blocks l of None \<Rightarrow> [] | Some bs \<Rightarrow> bs))
       (s\<lparr>requests := requests s @ [GetLayout p], project := p, layout := Some l,
          blocks := Map.empty, blockElements := Map.empty, blockOrder := []\<rparr>))"
    by (rule min_size_fold_store)
  then show ?thesis using HttpOk by (simp add: loadLayout_def Let_def min_size_def)
qed (simp_all add: loadLayout_def min_size_def)

lemma min_size_createBlock: "min_size s \<Longrightarrow> min_size (createBlock ty rl rt resp gen s)"
  using normalizeBlock_min
  by (auto simp: createBlock_def Let_def min_size_def split: fetched.splits option.splits)

lemma min_size_deleteBlock: "min_size s \<Longrightarrow> min_size (deleteBlock bid resp s)"
  by (auto simp: deleteBlock_def Let_def min_size_def split: fetched.splits if_splits)

lemma min_size_delete_click: "min_size s \<Longrightarrow> min_size (delete_click resp s)"
  by (simp add: delete_click_def min_size_deleteBlock split: option.splits)

lemma min_size_handlePointerMove: "min_size s \<Longrightarrow> min_size (handlePointerMove ev s)"
  by (auto simp: handlePointerMove_def Let_def min_size_def
      split: option.splits mode.splits if_splits)

lemma min_size_inspector_change:
  assumes inv: "min_size s"
  shows "min_size (inspector_change f v s)"
proof (cases "getSelectedBlock s")
  case None
  then show ?thesis using inv by (simp add: inspector_change_def numeric_change_def)
next
  case (Some b)
  from Some have sel: "blocks s (selectedId s) = Some b"
    by (simp add: getSelectedBlock_def split: if_splits)
  with inv have b: "40 \<le> width (position b)" "40 \<le> height (position b)"
    by (auto simp: min_size_def)
  define x where "x = (case v of None \<Rightarrow> 0 | Some r \<Rightarrow> r)"
  have r: "40 \<le> Math_round (if x < 40 then 40 else x)"
    by (rule Math_round_ge) simp
  show ?thesis
    using inv b r Some
    by (cases f)
       (auto simp: inspector_change_def numeric_change_def field_min_def set_field_def
          Let_def min_size_def x_def)
qed

lemma min_size_handle: "min_size s \<Longrightarrow> min_size (handle s e)"
  by (cases e)
     (simp_all add: min_size_loadLayout min_size_createBlock min_size_delete_click
        min_size_handlePointerMove min_size_inspector_change min_size_blocks_eq)

lemma min_size_run: "min_size s \<Longrightarrow> min_size (run evs s)"
  unfolding run_def by (induction evs arbitrary: s) (simp_all add: min_size_handle)

text \<open>
  Claim C1. Every block enters the store through \<open>normalizeBlock\<close>, and from a state whose
  blocks all have width and height at least 40 (the initial state is one) every sequence of
  events leads to a state whose blocks all have width and height at least 40. The events
  are pointer-down, pointer-move and pointer-up of drags and resizes, the changes of the
  inspector's four numeric inputs with any value, finite or not, and also loading, creating,
  deleting, selecting and zooming.
\<close>

theorem block_size_at_least_40:
  assumes "min_size s" and "blocks (run evs s) k = Some b"
  shows "40 \<le> width (position b) \<and> 40 \<le> height (position b)"
proof -
  from assms(1) have "min_size (run evs s)" by (rule min_size_run)
  with assms(2) show ?thesis by (simp add: min_size_def)
qed

text \<open>
  A block is created, resized by a pointer that moves 100300 pixels up and to the left,
  and its height is then set to \<open>-1000\<close> in the inspector: it ends 40 by 40.
\<close>

theorem block_size_at_least_40_witness:
  "min_size initial_state
   \<and> blocks (run [demo_create, PointerDown (demo_pointer 1 300 300 True) ''b1'',
                  PointerMove (demo_pointer 1 (- 100000) (- 100000) True),
                  PointerUp (demo_pointer 1 (- 100000) (- 100000) True),
                  InspectorChange Height (Some (- 1000))] initial_state) (Some ''b1'')
       = Some (demo_block 125 127 40 40)
   \<and> 40 \<le> width (position (demo_block 125 127 40 40))
   \<and> 40 \<le> height (position (demo_block 125 127 40 40))"
proof -
  have h1: "min_size initial_state" by (simp add: min_size_def initial_state_def)
  have h2: "blocks (run [demo_create, PointerDown (demo_pointer 1 300 300 True) ''b1'',
                  PointerMove (demo_pointer 1 (- 100000) (- 100000) True),
                  PointerUp (demo_pointer 1 (- 100000) (- 100000) True),
                  InspectorChange Height (Some (- 1000))] initial_state) (Some ''b1'')
       = Some (demo_block 125 127 40 40)"
    by (simp add: demo_defs step_defs)
  from block_size_at_least_40 [OF h1 h2] h1 h2 show ?thesis by blast
qed

section \<open>The range of the zoom\<close>

lemma zoom_showToast [simp]: "zoom (showToast m e s) = zoom s"
  by (simp add: showToast_def)

lemma zoom_set_selected_class [simp]: "zoom (set_selected_class k v s) = zoom s"
  by (simp add: set_selected_class_def split: option.splits)

lemma zoom_applyBlockPosition [simp]: "zoom (applyBlockPosition b s) = zoom s"
  by (simp add: applyBlockPosition_def split: option.splits)

lemma zoom_selectBlock [simp]: "zoom (selectBlock bid s) = zoom s"
  by (simp add: selectBlock_def Let_def split: option.splits)

lemma zoom_deselectBlock [simp]: "zoom (deselectBlock s) = zoom s"
  by (simp add: deselectBlock_def Let_def)

lemma zoom_persistBlock [simp]: "zoom (persistBlock bid p s) = zoom s"
  by (simp add: persistBlock_def)

lemma zoom_startPointerInteraction [simp]: "zoom (startPointerInteraction ev bid m s) = zoom s"
  by (simp add: startPointerInteraction_def split: option.splits)

lemma zoom_block_pointerdown [simp]: "zoom (block_pointerdown ev bid s) = zoom s"
  by (simp add: block_pointerdown_def Let_def)

lemma zoom_handlePointerMove [simp]: "zoom (handlePointerMove ev s) = zoom s"
  by (simp add: handlePointerMove_def Let_def split: option.splits)

lemma zoom_endPointerInteraction [simp]: "zoom (endPointerInteraction ev s) = zoom s"
  by (simp add: endPointerInteraction_def Let_def split: option.splits)

lemma zoom_inspector_change [simp]: "zoom (inspector_change f v s) = zoom s"
  by (simp add: inspector_change_def numeric_change_def Let_def split: option.splits)

lemma zoom_applyCanvasMeta [simp]: "zoom (applyCanvasMeta l s) = zoom s"
  by (simp add: applyCanvasMeta_def Let_def)

lemma zoom_fold_render:
  "zoom (fold (\<lambda>k st. case blocks st k of
                     None \<Rightarrow> st
                   | Some b \<Rightarrow>
                       if id' b = [] then st
                       else st\<lparr>blockElements := (blockElements st)(k \<mapsto> createBlockElement b)\<rparr>)
             ks s) = zoom s"
  by (induction ks arbitrary: s) (auto split: option.splits)

lemma zoom_renderCanvas [simp]: "zoom (renderCanvas s) = zoom s"
  by (simp add: renderCanvas_def zoom_fold_render)

lemma zoom_fold_store [simp]: "zoom (fold (store_block gen) ibs s) = zoom s"
  by (induction ibs arbitrary: s) (simp_all add: store_block_def)

lemma zoom_loadLayout [simp]: "zoom (loadLayout p resp gen s) = zoom s"
  by (cases resp) (simp_all add: loadLayout_def Let_def)

lemma zoom_createBlock [simp]: "zoom (createBlock ty rl rt resp gen s) = zoom s"
  by (simp add: createBlock_def Let_def split: fetched.splits option.splits)

lemma zoom_deleteBlock [simp]: "zoom (deleteBlock bid resp s) = zoom s"
  by (simp add: deleteBlock_def Let_def split: fetched.splits)

lemma zoom_delete_click [simp]: "zoom (delete_click resp s) = zoom s"
  by (simp add: delete_click_def split: option.splits)










section \<open>Geometry of a pointer move\<close>



section \<open>A failed load\<close>

text \<open>
  After a block has been created, a load of another project that is answered with an error
  status leaves that block in the store and its element on the canvas, and the project is
  still the old one.
\<close>

theorem load_failure_counterexample:
  "blocks (loadLayout ''other'' HttpError demo_gen (run [demo_create] initial_state)) (Some ''b1'')
     = Some (demo_block 125 127 260 140)
   \<and> blockElements (loadLayout ''other'' HttpError demo_gen (run [demo_create] initial_state))
       (Some ''b1'') = Some \<lparr>style = position (demo_block 125 127 260 140), selected = True\<rparr>
   \<and> project (loadLayout ''other'' HttpError demo_gen (run [demo_create] initial_state))
       = ''default''"
  by (simp add: demo_defs step_defs loadLayout_def)

text \<open>
  Claim C3, as the code has it. A load that fails, by a rejected request or by an error
  status, raises nothing. In the editor it sends the request, shows the notification
  ``Unable to load layout'' and changes nothing else: project, layout, blocks, order,
  elements and selection are those before the call. Only the legacy client falls back to the
  default layout, which has no blocks, and so empties its canvas.
\<close>

theorem load_failure_keeps_state:
  "loadLayout p NetworkError gen s =
     s\<lparr>requests := requests s @ [GetLayout p],
       toasts := toasts s @ [(''Unable to load layout'', True)]\<rparr>
   \<and> loadLayout p HttpError gen s =
     s\<lparr>requests := requests s @ [GetLayout p],
       toasts := toasts s @ [(''Unable to load layout'', True)]\<rparr>
   \<and> legacy_loadLayout NetworkError canvas = []
   \<and> legacy_loadLayout HttpError canvas = []"
  by (simp add: loadLayout_def showToast_def Let_def legacy_loadLayout_def applyLayout_def
      getDefaultLayout_def)

section \<open>Saving after a burst of edits\<close>








section \<open>One interaction at a time\<close>

text \<open>
  Claim C5. The state has one slot for the active interaction. While it is filled, a
  pointer-down on any block, with any pointer and on the body or the resize handle, leaves
  the slot and every block as they are, and \<open>startPointerInteraction\<close> itself changes
  nothing at all.
\<close>

theorem second_pointerdown_ignored:
  assumes "activePointer s = Some a"
  shows "activePointer (block_pointerdown ev bid s) = Some a
         \<and> blocks (block_pointerdown ev bid s) = blocks s
         \<and> startPointerInteraction ev bid m s = s"
  using assms
  by (simp add: block_pointerdown_def startPointerInteraction_def Let_def)

text \<open>
  During a drag with pointer 1, a pointer-down of pointer 2 on the resize handle of the
  same block starts nothing.
\<close>

theorem second_pointerdown_ignored_witness:
  "activePointer (run [demo_create, PointerDown (demo_pointer 1 300 300 False) ''b1'']
        initial_state) = Some (demo_active Drag)
   \<and> activePointer (block_pointerdown (demo_pointer 2 10 10 True) ''b1''
        (run [demo_create, PointerDown (demo_pointer 1 300 300 False) ''b1''] initial_state))
       = Some (demo_active Drag)
   \<and> blocks (block_pointerdown (demo_pointer 2 10 10 True) ''b1''
        (run [demo_create, PointerDown (demo_pointer 1 300 300 False) ''b1''] initial_state))
       = blocks (run [demo_create, PointerDown (demo_pointer 1 300 300 False) ''b1'']
           initial_state)"
proof -
  let ?s = "run [demo_create, PointerDown (demo_pointer 1 300 300 False) ''b1''] initial_state"
  have h: "activePointer ?s = Some (demo_active Drag)"
    by (simp add: demo_defs step_defs)
  from second_pointerdown_ignored [OF h, of "demo_pointer 2 10 10 True" "''b1''"] h
  show ?thesis by simp
qed

section \<open>A failed creation\<close>

text \<open>
  Claim C6. When the request of \<open>createBlock\<close> is rejected or answered with an error
  status, the block map, the block order and the map of elements are those before the call.
\<close>

theorem create_failure_keeps_store:
  "blocks (createBlock ty rl rt NetworkError gen s) = blocks s
   \<and> blockOrder (createBlock ty rl rt NetworkError gen s) = blockOrder s
   \<and> blockElements (createBlock ty rl rt NetworkError gen s) = blockElements s
   \<and> blocks (createBlock ty rl rt HttpError gen s) = blocks s
   \<and> blockOrder (createBlock ty rl rt HttpError gen s) = blockOrder s
   \<and> blockElements (createBlock ty rl rt HttpError gen s) = blockElements s"
  by (simp add: createBlock_def showToast_def Let_def)

section \<open>Fitting the canvas to the panel\<close>








section \<open>Zoom and geometry\<close>

text \<open>
  Claim C8. Setting the zoom, stepping it, zooming with the wheel and fitting the canvas
  leave the block map, and with it the position of every block, as it is; the style lengths
  of the elements are untouched as well.
\<close>

theorem zoom_keeps_geometry:
  "blocks (setCanvasZoom v s) = blocks s \<and> blockElements (setCanvasZoom v s) = blockElements s
   \<and> blocks (adjustCanvasZoom d s) = blocks s \<and> blockElements (adjustCanvasZoom d s) = blockElements s
   \<and> blocks (handleZoomWheel w s) = blocks s \<and> blockElements (handleZoomWheel w s) = blockElements s
   \<and> blocks (fitCanvasToPanel c s) = blocks s \<and> blockElements (fitCanvasToPanel c s) = blockElements s"
  by simp

section \<open>The selection\<close>





















section \<open>Deleting on the server\<close>




end
